theory Spec2Isabelle
  imports Main "HOL-Library.Word"
begin

section \<open>FUOTA deployment storage (internal/storage/fuota_deployment.go)\<close>

text \<open>
  The Go package stores firmware-update deployments in two PostgreSQL tables,
  \<^verbatim>\<open>fuota_deployment\<close> and \<^verbatim>\<open>fuota_deployment_device\<close>, through an
  \<^verbatim>\<open>sqlx.Ext\<close> handle. The embedding below follows the file function by function:
  the Go structs are records, a table is the list of its rows, every SQL statement of the
  file is a function on the tables, and every Go function returns what the Go code leaves
  behind: the struct it was handed by pointer (as mutated), the store, and the error.

  What the Go code takes from its environment is an argument of the model:
  the clock (\<^verbatim>\<open>time.Now()\<close>), the UUID generator (\<^verbatim>\<open>uuid.NewV4()\<close>), the outcome the
  database driver reports for a statement, the point at which the row stream of a query
  fails, if it does, and the package's error mapper
  \<^verbatim>\<open>handlePSQLError\<close>, which is declared in another file of the package.

  A column holds the value it was given: timestamps are instants (an \<open>int\<close>), byte
  strings are lists of bytes, and a Go \<^verbatim>\<open>nil\<close> slice is the empty list.
\<close>

subsection \<open>Go types\<close>

type_synonym byte = "8 word"
type_synonym byte4 = "byte \<times> byte \<times> byte \<times> byte"
type_synonym UUID = "128 word"
type_synonym EUI64 = "64 word"
type_synonym Time = int
type_synonym go_int = "64 word"
type_synonym Duration = "64 word"

text \<open>\<^verbatim>\<open>type FUOTADeploymentState string\<close> and its constants.\<close>

type_synonym FUOTADeploymentState = string

definition FUOTADeploymentMulticastSetup :: FUOTADeploymentState where
  "FUOTADeploymentMulticastSetup = ''MC_SETUP''"

definition FUOTADeploymentFragmentationSessSetup :: FUOTADeploymentState where
  "FUOTADeploymentFragmentationSessSetup = ''FRAG_SESS_SETUP''"

definition FUOTADeploymentMulticastSessCSetup :: FUOTADeploymentState where
  "FUOTADeploymentMulticastSessCSetup = ''MC_SESS_C_SETUP''"

definition FUOTADeploymentEnqueue :: FUOTADeploymentState where
  "FUOTADeploymentEnqueue = ''ENQUEUE''"

definition FUOTADeploymentWaitingTx :: FUOTADeploymentState where
  "FUOTADeploymentWaitingTx = ''WAITING_TX''"

definition FUOTADeploymentTransmitted :: FUOTADeploymentState where
  "FUOTADeploymentTransmitted = ''TRANSMITTED''"

definition FUOTADeploymentStatusRequested :: FUOTADeploymentState where
  "FUOTADeploymentStatusRequested = ''STATUS_REQUESTED''"

definition FUOTADeploymentDone :: FUOTADeploymentState where
  "FUOTADeploymentDone = ''DONE''"

text \<open>\<^verbatim>\<open>type FUOTADeploymentDeviceState string\<close> and its constants.\<close>

type_synonym FUOTADeploymentDeviceState = string

definition FUOTADeploymentDevicePending :: FUOTADeploymentDeviceState where
  "FUOTADeploymentDevicePending = ''PENDING''"

definition FUOTADeploymentDeviceSuccess :: FUOTADeploymentDeviceState where
  "FUOTADeploymentDeviceSuccess = ''SUCCESS''"

definition FUOTADeploymentDeviceError :: FUOTADeploymentDeviceState where
  "FUOTADeploymentDeviceError = ''ERROR''"

text \<open>\<^verbatim>\<open>type FUOTADeployment struct\<close>, field by field.\<close>

record FUOTADeployment =
  ID :: UUID
  CreatedAt :: Time
  UpdatedAt :: Time
  Name :: string
  MulticastGroupID :: "UUID option"
  FragmentationMatrix :: byte
  Descriptor :: byte4
  Payload :: "byte list"
  FragSize :: go_int
  Redundancy :: go_int
  BlockAckDelay :: go_int
  MulticastTimeout :: go_int
  State :: FUOTADeploymentState
  UnicastTimeout :: Duration
  NextStepAfter :: Time

text \<open>The zero value of the struct (\<^verbatim>\<open>var fd FUOTADeployment\<close>).\<close>

definition zero_FUOTADeployment :: FUOTADeployment where
  "zero_FUOTADeployment =
     \<lparr>ID = 0, CreatedAt = 0, UpdatedAt = 0, Name = [], MulticastGroupID = None,
      FragmentationMatrix = 0, Descriptor = (0, 0, 0, 0), Payload = [],
      FragSize = 0, Redundancy = 0, BlockAckDelay = 0, MulticastTimeout = 0,
      State = [], UnicastTimeout = 0, NextStepAfter = 0\<rparr>"

text \<open>\<^verbatim>\<open>fd.Descriptor[:]\<close>: the array as a slice.\<close>

fun slice4 :: "byte4 \<Rightarrow> byte list" where
  "slice4 (a, b, c, d) = [a, b, c, d]"

text \<open>
  \<^verbatim>\<open>copy(fd.Descriptor[:], src)\<close>: Go copies \<open>min (len dst) (len src)\<close> elements and
  leaves the rest of the destination as it was.
\<close>

fun copy4 :: "byte4 \<Rightarrow> byte list \<Rightarrow> byte4" where
  "copy4 (a, b, c, d) [] = (a, b, c, d)"
| "copy4 (a, b, c, d) [w] = (w, b, c, d)"
| "copy4 (a, b, c, d) [w, x] = (w, x, c, d)"
| "copy4 (a, b, c, d) [w, x, y] = (w, x, y, d)"
| "copy4 (a, b, c, d) (w # x # y # z # rest) = (w, x, y, z)"

subsection \<open>Errors\<close>

text \<open>
  The errors the file receives from its libraries: \<^verbatim>\<open>sql.ErrNoRows\<close> (a row query that
  found nothing) and any other error, kept by its message.
\<close>

datatype cause = sql_ErrNoRows | other_error string

text \<open>
  The errors the file returns: the package's \<^verbatim>\<open>ErrDoesNotExist\<close>, an
  \<^verbatim>\<open>errors.Wrap\<close> of a cause with a description, the two \<^verbatim>\<open>fmt.Errorf\<close> messages
  of the row scanner (with the lengths they print), and whatever else
  \<^verbatim>\<open>handlePSQLError\<close> may produce.
\<close>

datatype error =
    ErrDoesNotExist
  | Wrap cause string
  | FragmentationMatrix_must_have_length_1 nat
  | Descriptor_must_have_length nat nat
  | PSQLError string

datatype action = Select | Insert | Update

type_synonym psql_handler = "action \<Rightarrow> cause \<Rightarrow> string \<Rightarrow> error"

text \<open>
  Modelled from the spec: \<^verbatim>\<open>handlePSQLError\<close> is called by this file but declared in
  another file of the package. The functions below take the handler as their first
  argument, so that what is proved of them holds for any handler; this instance is
  the one used at concrete inputs. The spec's error taxonomy has a not-found error that
  is surfaced to the caller when the referenced deployment does not exist: a query that
  found no row gives \<open>ErrDoesNotExist\<close>, and any other cause is wrapped with the
  description.
\<close>

definition handlePSQLError :: psql_handler where
  "handlePSQLError act err description =
     (if err = sql_ErrNoRows then ErrDoesNotExist else Wrap err description)"

subsection \<open>The store\<close>

text \<open>The columns of \<^verbatim>\<open>fuota_deployment\<close>, in the order of the insert statement.\<close>

record fuota_deployment_row =
  c_id :: UUID
  c_created_at :: Time
  c_updated_at :: Time
  c_name :: string
  c_multicast_group_id :: "UUID option"
  c_fragmentation_matrix :: "byte list"
  c_descriptor :: "byte list"
  c_payload :: "byte list"
  c_state :: string
  c_next_step_after :: Time
  c_unicast_timeout :: Duration
  c_frag_size :: go_int
  c_redundancy :: go_int
  c_block_ack_delay :: go_int
  c_multicast_timeout :: go_int

text \<open>The columns of \<^verbatim>\<open>fuota_deployment_device\<close> that the file writes.\<close>

record fuota_deployment_device_row =
  dd_fuota_deployment_id :: UUID
  dd_dev_eui :: EUI64
  dd_created_at :: Time
  dd_updated_at :: Time
  dd_state :: string
  dd_error_message :: string

text \<open>
  The store as one handle sees it: the two tables, and the identifiers of the
  \<^verbatim>\<open>fuota_deployment\<close> rows that other transactions hold locked (the rows that
  \<^verbatim>\<open>for update skip locked\<close> passes over).
\<close>

record db =
  fuota_deployment :: "fuota_deployment_row list"
  fuota_deployment_device :: "fuota_deployment_device_row list"
  locked :: "UUID list"

text \<open>
  \<^verbatim>\<open>db.Exec\<close> of an insert statement. The driver either reports an error, and then the
  table is as before, or appends the row.
\<close>

definition Exec_insert_fuota_deployment ::
  "cause option \<Rightarrow> db \<Rightarrow> fuota_deployment_row \<Rightarrow> cause + db" where
  "Exec_insert_fuota_deployment drv d r =
     (case drv of
        Some err \<Rightarrow> Inl err
      | None \<Rightarrow> Inr (d\<lparr>fuota_deployment := fuota_deployment d @ [r]\<rparr>))"

definition Exec_insert_fuota_deployment_device ::
  "cause option \<Rightarrow> db \<Rightarrow> fuota_deployment_device_row \<Rightarrow> cause + db" where
  "Exec_insert_fuota_deployment_device drv d r =
     (case drv of
        Some err \<Rightarrow> Inl err
      | None \<Rightarrow> Inr (d\<lparr>fuota_deployment_device := fuota_deployment_device d @ [r]\<rparr>))"

text \<open>
  \<^verbatim>\<open>db.Exec\<close> of an update statement on \<^verbatim>\<open>fuota_deployment\<close> with the clause
  \<^verbatim>\<open>where id = $1\<close>: \<open>i\<close> is the parameter \<^verbatim>\<open>$1\<close> and \<open>set_clause\<close> what the
  \<^verbatim>\<open>set\<close> clause does to a row. The result carries the updated store and the number
  of rows affected.
\<close>

definition Exec_update_fuota_deployment ::
  "cause option \<Rightarrow> db \<Rightarrow> UUID \<Rightarrow> (fuota_deployment_row \<Rightarrow> fuota_deployment_row) \<Rightarrow>
   cause + (db \<times> nat)" where
  "Exec_update_fuota_deployment drv d i set_clause =
     (case drv of
        Some err \<Rightarrow> Inl err
      | None \<Rightarrow>
          Inr (d\<lparr>fuota_deployment :=
                   map (\<lambda>r. if c_id r = i then set_clause r else r) (fuota_deployment d)\<rparr>,
               length (filter (\<lambda>r. c_id r = i) (fuota_deployment d))))"

text \<open>
  \<^verbatim>\<open>db.QueryRowx\<close> of the select by id, followed by the \<^verbatim>\<open>Scan\<close> of its columns: the
  first row with the identifier, \<^verbatim>\<open>sql.ErrNoRows\<close> when there is none, or the error
  the driver reports. The \<^verbatim>\<open>for update\<close> suffix takes a lock and selects the same row.
\<close>

definition QueryRowx_fuota_deployment ::
  "cause option \<Rightarrow> db \<Rightarrow> UUID \<Rightarrow> bool \<Rightarrow> cause + fuota_deployment_row" where
  "QueryRowx_fuota_deployment drv d i forUpdate =
     (case drv of
        Some err \<Rightarrow> Inl err
      | None \<Rightarrow>
          (case filter (\<lambda>r. c_id r = i) (fuota_deployment d) of
             [] \<Rightarrow> Inl sql_ErrNoRows
           | r # rest \<Rightarrow> Inr r))"

text \<open>The \<^verbatim>\<open>where\<close> clause of the pending query, with \<^verbatim>\<open>skip locked\<close>.\<close>

definition pending_where :: "db \<Rightarrow> string \<Rightarrow> Time \<Rightarrow> fuota_deployment_row \<Rightarrow> bool" where
  "pending_where d st t r \<longleftrightarrow>
     c_state r \<noteq> st \<and> c_next_step_after r \<le> t \<and> c_multicast_group_id r \<noteq> None
     \<and> c_id r \<notin> set (locked d)"

text \<open>
  \<^verbatim>\<open>db.Queryx\<close> of the pending query: the rows that pass the \<^verbatim>\<open>where\<close> clause, at
  most \<^verbatim>\<open>limit\<close> of them. PostgreSQL rejects a negative \<^verbatim>\<open>limit\<close>.
\<close>

definition Queryx_pending ::
  "cause option \<Rightarrow> db \<Rightarrow> string \<Rightarrow> Time \<Rightarrow> go_int \<Rightarrow> cause + fuota_deployment_row list" where
  "Queryx_pending drv d st t lim =
     (case drv of
        Some err \<Rightarrow> Inl err
      | None \<Rightarrow>
          if sint lim < 0 then Inl (other_error ''LIMIT must not be negative'')
          else Inr (take (unat lim) (filter (pending_where d st t) (fuota_deployment d))))"

text \<open>\<^verbatim>\<open>select count(*) from fuota_deployment_device where fuota_deployment_id = $1\<close>.\<close>

definition Get_device_count :: "cause option \<Rightarrow> db \<Rightarrow> UUID \<Rightarrow> cause + nat" where
  "Get_device_count drv d i =
     (case drv of
        Some err \<Rightarrow> Inl err
      | None \<Rightarrow> Inr (length (filter (\<lambda>r. dd_fuota_deployment_id r = i) (fuota_deployment_device d))))"

subsection \<open>The functions of the file\<close>

text \<open>
  \<^verbatim>\<open>scanFUOTADeployment\<close>. The argument is what \<^verbatim>\<open>row.Scan\<close> delivers: an error, or
  the columns of the row. The function returns the struct as far as it was filled,
  together with the error.
\<close>

definition scanFUOTADeployment ::
  "psql_handler \<Rightarrow> cause + fuota_deployment_row \<Rightarrow> FUOTADeployment \<times> error option" where
  "scanFUOTADeployment h row =
     (let fd = zero_FUOTADeployment in
      case row of
        Inl err \<Rightarrow> (fd, Some (h Select err ''select error''))
      | Inr r \<Rightarrow>
          (let fd = fd\<lparr>ID := c_id r,
                       CreatedAt := c_created_at r,
                       UpdatedAt := c_updated_at r,
                       Name := c_name r,
                       MulticastGroupID := c_multicast_group_id r,
                       Payload := c_payload r,
                       State := c_state r,
                       NextStepAfter := c_next_step_after r,
                       UnicastTimeout := c_unicast_timeout r,
                       FragSize := c_frag_size r,
                       Redundancy := c_redundancy r,
                       BlockAckDelay := c_block_ack_delay r,
                       MulticastTimeout := c_multicast_timeout r\<rparr>;
               fragmentationMatrix = c_fragmentation_matrix r;
               descriptor = c_descriptor r
           in if length fragmentationMatrix \<noteq> 1
              then (fd, Some (FragmentationMatrix_must_have_length_1 (length fragmentationMatrix)))
              else
                (let fd = fd\<lparr>FragmentationMatrix := fragmentationMatrix ! 0\<rparr>
                 in if length descriptor \<noteq> length (slice4 (Descriptor fd))
                    then (fd, Some (Descriptor_must_have_length
                                      (length (slice4 (Descriptor fd))) (length descriptor)))
                    else (fd\<lparr>Descriptor := copy4 (Descriptor fd) descriptor\<rparr>, None))))"

text \<open>
  \<^verbatim>\<open>CreateFUOTADeploymentForDevice\<close>. \<open>now\<close> is the value of \<^verbatim>\<open>time.Now()\<close>,
  \<open>newV4\<close> the pair that \<^verbatim>\<open>uuid.NewV4()\<close> returns, \<open>drv1\<close> and \<open>drv2\<close> what the driver
  reports for the two insert statements. The result is the struct behind the pointer
  \<^verbatim>\<open>fd\<close>, the store, and the returned error.
\<close>

definition CreateFUOTADeploymentForDevice ::
  "psql_handler \<Rightarrow> Time \<Rightarrow> UUID \<times> string option \<Rightarrow> cause option \<Rightarrow> cause option \<Rightarrow>
   db \<Rightarrow> FUOTADeployment \<Rightarrow> EUI64 \<Rightarrow> FUOTADeployment \<times> db \<times> error option" where
  "CreateFUOTADeploymentForDevice h now newV4 drv1 drv2 d fd devEUI =
     (let fd = fd\<lparr>ID := fst newV4\<rparr> in
      case snd newV4 of
        Some msg \<Rightarrow> (fd, d, Some (Wrap (other_error msg) ''new uuid error''))
      | None \<Rightarrow>
          (let fd = fd\<lparr>CreatedAt := now\<rparr>;
               fd = fd\<lparr>UpdatedAt := now\<rparr>;
               fd = fd\<lparr>NextStepAfter := now\<rparr>;
               fd = (if State fd = [] then fd\<lparr>State := FUOTADeploymentMulticastSetup\<rparr> else fd)
           in case Exec_insert_fuota_deployment drv1 d
                     \<lparr>c_id = ID fd,
                      c_created_at = CreatedAt fd,
                      c_updated_at = UpdatedAt fd,
                      c_name = Name fd,
                      c_multicast_group_id = MulticastGroupID fd,
                      c_fragmentation_matrix = [FragmentationMatrix fd],
                      c_descriptor = slice4 (Descriptor fd),
                      c_payload = Payload fd,
                      c_state = State fd,
                      c_next_step_after = NextStepAfter fd,
                      c_unicast_timeout = UnicastTimeout fd,
                      c_frag_size = FragSize fd,
                      c_redundancy = Redundancy fd,
                      c_block_ack_delay = BlockAckDelay fd,
                      c_multicast_timeout = MulticastTimeout fd\<rparr> of
                Inl err \<Rightarrow> (fd, d, Some (h Insert err ''insert error''))
              | Inr d1 \<Rightarrow>
                  (case Exec_insert_fuota_deployment_device drv2 d1
                          \<lparr>dd_fuota_deployment_id = ID fd,
                           dd_dev_eui = devEUI,
                           dd_created_at = now,
                           dd_updated_at = now,
                           dd_state = FUOTADeploymentDevicePending,
                           dd_error_message = []\<rparr> of
                     Inl err \<Rightarrow> (fd, d1, Some (h Insert err ''insert error''))
                   | Inr d2 \<Rightarrow> (fd, d2, None))))"

text \<open>\<^verbatim>\<open>GetFUOTADeployment\<close>: the row query by id, handed to the scanner.\<close>

definition GetFUOTADeployment ::
  "psql_handler \<Rightarrow> cause option \<Rightarrow> db \<Rightarrow> UUID \<Rightarrow> bool \<Rightarrow> FUOTADeployment \<times> error option" where
  "GetFUOTADeployment h drv d i forUpdate =
     scanFUOTADeployment h (QueryRowx_fuota_deployment drv d i forUpdate)"

text \<open>
  \<^verbatim>\<open>rows.Next()\<close>: the rows that the cursor of a query delivers before \<^verbatim>\<open>Next\<close>
  returns false. These are all rows of the result, or, when the driver fails in
  mid-stream after \<open>n\<close> rows, the first \<open>n\<close> of them. \<^verbatim>\<open>Next\<close> returns false in
  both cases, and the file never reads \<^verbatim>\<open>rows.Err()\<close>.
\<close>

definition rows_Next :: "nat option \<Rightarrow> fuota_deployment_row list \<Rightarrow> fuota_deployment_row list" where
  "rows_Next fetch rows = (case fetch of None \<Rightarrow> rows | Some n \<Rightarrow> take n rows)"

text \<open>
  The loop \<^verbatim>\<open>for rows.Next() { ... }\<close> of \<^verbatim>\<open>GetPendingFUOTADeployments\<close>, over the rows
  that the cursor delivers: each row is scanned and appended to \<^verbatim>\<open>out\<close>; the first scan
  error ends the function with \<^verbatim>\<open>nil, err\<close>.
\<close>

fun scan_rows ::
  "psql_handler \<Rightarrow> fuota_deployment_row list \<Rightarrow> FUOTADeployment list \<Rightarrow>
   FUOTADeployment list \<times> error option" where
  "scan_rows h [] out = (out, None)"
| "scan_rows h (r # rows) out =
     (case scanFUOTADeployment h (Inr r) of
        (item, Some err) \<Rightarrow> ([], Some err)
      | (item, None) \<Rightarrow> scan_rows h rows (out @ [item]))"

text \<open>
  \<^verbatim>\<open>GetPendingFUOTADeployments\<close>. \<open>now\<close> is the value of \<^verbatim>\<open>time.Now()\<close> passed as
  \<^verbatim>\<open>$2\<close>, \<open>drv\<close> what the driver reports for the query, \<open>fetch\<close> the number of rows
  after which the row stream fails, if it does. When the stream fails the loop ends as it
  does at the last row, and the function returns the deployments scanned so far with a
  \<^verbatim>\<open>nil\<close> error.
\<close>

definition GetPendingFUOTADeployments ::
  "psql_handler \<Rightarrow> Time \<Rightarrow> cause option \<Rightarrow> nat option \<Rightarrow> db \<Rightarrow> go_int \<Rightarrow>
   FUOTADeployment list \<times> error option" where
  "GetPendingFUOTADeployments h now drv fetch d batchSize =
     (case Queryx_pending drv d FUOTADeploymentDone now batchSize of
        Inl err \<Rightarrow> ([], Some (h Select err ''select error''))
      | Inr rows \<Rightarrow> scan_rows h (rows_Next fetch rows) [])"

text \<open>
  \<^verbatim>\<open>UpdateFUOTADeployment\<close>. \<open>now\<close> is the value of \<^verbatim>\<open>time.Now()\<close>, \<open>drv\<close> what the
  driver reports for the update statement, \<open>ra_err\<close> the error of
  \<^verbatim>\<open>res.RowsAffected()\<close> if it has one. The result is the struct behind the pointer
  \<^verbatim>\<open>fd\<close>, the store, and the returned error.
\<close>

definition UpdateFUOTADeployment ::
  "psql_handler \<Rightarrow> Time \<Rightarrow> cause option \<Rightarrow> string option \<Rightarrow>
   db \<Rightarrow> FUOTADeployment \<Rightarrow> FUOTADeployment \<times> db \<times> error option" where
  "UpdateFUOTADeployment h now drv ra_err d fd =
     (let fd = fd\<lparr>UpdatedAt := now\<rparr> in
      case Exec_update_fuota_deployment drv d (ID fd)
             (\<lambda>r. r\<lparr>c_updated_at := UpdatedAt fd,
                    c_name := Name fd,
                    c_multicast_group_id := MulticastGroupID fd,
                    c_fragmentation_matrix := [FragmentationMatrix fd],
                    c_descriptor := slice4 (Descriptor fd),
                    c_payload := Payload fd,
                    c_state := State fd,
                    c_next_step_after := NextStepAfter fd,
                    c_unicast_timeout := UnicastTimeout fd,
                    c_frag_size := FragSize fd,
                    c_redundancy := Redundancy fd,
                    c_block_ack_delay := BlockAckDelay fd,
                    c_multicast_timeout := MulticastTimeout fd\<rparr>) of
        Inl err \<Rightarrow> (fd, d, Some (h Update err ''update error''))
      | Inr (d1, ra) \<Rightarrow>
          (case ra_err of
             Some msg \<Rightarrow> (fd, d1, Some (Wrap (other_error msg) ''get rows affected error''))
           | None \<Rightarrow>
               if ra = 0 then (fd, d1, Some ErrDoesNotExist)
               else (fd, d1, None)))"

text \<open>\<^verbatim>\<open>GetFUOTADeploymentDeviceCount\<close>.\<close>

definition GetFUOTADeploymentDeviceCount ::
  "psql_handler \<Rightarrow> cause option \<Rightarrow> db \<Rightarrow> UUID \<Rightarrow> nat \<times> error option" where
  "GetFUOTADeploymentDeviceCount h drv d fuotaDeploymentID =
     (case Get_device_count drv d fuotaDeploymentID of
        Inl err \<Rightarrow> (0, Some (h Select err ''select error''))
      | Inr count \<Rightarrow> (count, None))"

subsection \<open>Concrete inputs\<close>

text \<open>
  The deployment of the package's test (\<^verbatim>\<open>TestFUOTADeployment\<close>): the struct as the test
  fills it, the device EUI \<^verbatim>\<open>{1,2,3,4,5,6,7,8}\<close>, and the store after one creation at
  time \<open>100\<close> with the identifier \<open>1\<close>.
\<close>

definition test_fd :: FUOTADeployment where
  "test_fd =
     \<lparr>ID = 0, CreatedAt = 0, UpdatedAt = 0, Name = ''test deployment'',
      MulticastGroupID = Some 9, FragmentationMatrix = 3, Descriptor = (1, 2, 3, 4),
      Payload = [5, 6, 7, 8], FragSize = 10, Redundancy = 20, BlockAckDelay = 6,
      MulticastTimeout = 3, State = [], UnicastTimeout = 60000000000, NextStepAfter = 0\<rparr>"

definition test_devEUI :: EUI64 where
  "test_devEUI = 0x0102030405060708"

definition empty_db :: db where
  "empty_db = \<lparr>fuota_deployment = [], fuota_deployment_device = [], locked = []\<rparr>"

definition test_row :: fuota_deployment_row where
  "test_row =
     \<lparr>c_id = 1, c_created_at = 100, c_updated_at = 100, c_name = ''test deployment'',
      c_multicast_group_id = Some 9, c_fragmentation_matrix = [3],
      c_descriptor = [1, 2, 3, 4], c_payload = [5, 6, 7, 8], c_state = ''MC_SETUP'',
      c_next_step_after = 100, c_unicast_timeout = 60000000000, c_frag_size = 10,
      c_redundancy = 20, c_block_ack_delay = 6, c_multicast_timeout = 3\<rparr>"

definition test_device_row :: fuota_deployment_device_row where
  "test_device_row =
     \<lparr>dd_fuota_deployment_id = 1, dd_dev_eui = 0x0102030405060708, dd_created_at = 100,
      dd_updated_at = 100, dd_state = ''PENDING'', dd_error_message = []\<rparr>"

definition test_db :: db where
  "test_db = \<lparr>fuota_deployment = [test_row], fuota_deployment_device = [test_device_row],
              locked = []\<rparr>"

definition created_fd :: FUOTADeployment where
  "created_fd = test_fd\<lparr>ID := 1, CreatedAt := 100, UpdatedAt := 100, NextStepAfter := 100,
                        State := ''MC_SETUP''\<rparr>"

text \<open>A store with two due deployments.\<close>

definition test_db2 :: db where
  "test_db2 = \<lparr>fuota_deployment = [test_row, test_row\<lparr>c_id := 2\<rparr>],
               fuota_deployment_device = [test_device_row], locked = []\<rparr>"

text \<open>
  A store with one due deployment and four that the pending query passes over: one
  without multicast group (due long ago), one in state \<^verbatim>\<open>DONE\<close>, one that is not due
  yet, and one locked by another transaction.
\<close>

definition test_db3 :: db where
  "test_db3 =
     \<lparr>fuota_deployment =
        [test_row\<lparr>c_id := 3, c_multicast_group_id := None, c_next_step_after := 0\<rparr>,
         test_row\<lparr>c_id := 4, c_state := ''DONE''\<rparr>,
         test_row,
         test_row\<lparr>c_id := 5, c_next_step_after := 900\<rparr>,
         test_row\<lparr>c_id := 6\<rparr>],
      fuota_deployment_device = [test_device_row], locked = [6]\<rparr>"

text \<open>A row whose descriptor column holds three bytes, and a store with that row.\<close>

definition bad_row :: fuota_deployment_row where
  "bad_row = test_row\<lparr>c_descriptor := [1, 2, 3]\<rparr>"

definition bad_db :: db where
  "bad_db = \<lparr>fuota_deployment = [bad_row], fuota_deployment_device = [], locked = []\<rparr>"

text \<open>A store with a well-formed due row followed by a due row of that kind.\<close>

definition bad_db2 :: db where
  "bad_db2 = \<lparr>fuota_deployment = [test_row, bad_row\<lparr>c_id := 2\<rparr>],
              fuota_deployment_device = [], locked = []\<rparr>"

text \<open>A store whose only row is of that kind and in state \<^verbatim>\<open>DONE\<close>.\<close>

definition bad_db3 :: db where
  "bad_db3 = \<lparr>fuota_deployment = [bad_row\<lparr>c_state := ''DONE''\<rparr>],
              fuota_deployment_device = [], locked = []\<rparr>"

text \<open>
  Two updates of the stored deployment, one after the other: the first sets the
  next-step time to \<open>300\<close>, the second to \<open>50\<close>.
\<close>

definition first_update :: "FUOTADeployment \<times> db \<times> error option" where
  "first_update =
     UpdateFUOTADeployment handlePSQLError 200 None None test_db (created_fd\<lparr>NextStepAfter := 300\<rparr>)"

definition second_update :: "FUOTADeployment \<times> db \<times> error option" where
  "second_update =
     UpdateFUOTADeployment handlePSQLError 210 None None (fst (snd first_update))
       ((fst first_update)\<lparr>NextStepAfter := 50\<rparr>)"

section \<open>Properties\<close>

subsection \<open>Auxiliary facts\<close>

lemmas test_defs = test_fd_def test_devEUI_def empty_db_def test_row_def test_device_row_def
  test_db_def created_fd_def test_db2_def test_db3_def bad_row_def bad_db_def bad_db2_def
  bad_db3_def
  FUOTADeploymentMulticastSetup_def FUOTADeploymentDevicePending_def FUOTADeploymentDone_def

lemmas exec_defs = CreateFUOTADeploymentForDevice_def Exec_insert_fuota_deployment_def
  Exec_insert_fuota_deployment_device_def UpdateFUOTADeployment_def
  Exec_update_fuota_deployment_def GetFUOTADeployment_def QueryRowx_fuota_deployment_def
  GetPendingFUOTADeployments_def Queryx_pending_def rows_Next_def pending_where_def
  scanFUOTADeployment_def
  zero_FUOTADeployment_def GetFUOTADeploymentDeviceCount_def Get_device_count_def
  handlePSQLError_def Let_def

lemma copy4_slice4: "copy4 z (slice4 x) = x"
  by (cases z, cases x) simp

lemma length_slice4: "length (slice4 x) = 4"
  by (cases x) simp

lemma scan_fields:
  "scanFUOTADeployment h (Inr r) = (fd, e) \<Longrightarrow>
     ID fd = c_id r \<and> State fd = c_state r \<and> NextStepAfter fd = c_next_step_after r
     \<and> MulticastGroupID fd = c_multicast_group_id r"
  by (auto simp: scanFUOTADeployment_def Let_def split: if_splits)


lemma scan_well_formed:
  "scanFUOTADeployment h
     (Inr \<lparr>c_id = ID fd,
             c_created_at = CreatedAt fd,
             c_updated_at = UpdatedAt fd,
             c_name = Name fd,
             c_multicast_group_id = MulticastGroupID fd,
             c_fragmentation_matrix = [FragmentationMatrix fd],
             c_descriptor = slice4 (Descriptor fd),
             c_payload = Payload fd,
             c_state = State fd,
             c_next_step_after = NextStepAfter fd,
             c_unicast_timeout = UnicastTimeout fd,
             c_frag_size = FragSize fd,
             c_redundancy = Redundancy fd,
             c_block_ack_delay = BlockAckDelay fd,
             c_multicast_timeout = MulticastTimeout fd\<rparr>) = (fd, None)"
  by (cases fd) (simp add: scanFUOTADeployment_def Let_def zero_FUOTADeployment_def
      length_slice4 copy4_slice4)

lemma set_rows_Next: "r \<in> set (rows_Next fetch rows) \<Longrightarrow> r \<in> set rows"
  by (auto simp: rows_Next_def split: option.splits dest: in_set_takeD)

lemma length_rows_Next: "length (rows_Next fetch rows) \<le> length rows"
  by (simp add: rows_Next_def split: option.splits)

lemma scan_rows_mem:
  "scan_rows h rows acc = (out, e) \<Longrightarrow> fd \<in> set out \<Longrightarrow>
     fd \<in> set acc \<or> (\<exists>r\<in>set rows. fst (scanFUOTADeployment h (Inr r)) = fd)"
proof (induction rows arbitrary: acc)
  case Nil
  then show ?case by simp
next
  case (Cons r rows)
  obtain item e1 where sc: "scanFUOTADeployment h (Inr r) = (item, e1)"
    by (cases "scanFUOTADeployment h (Inr r)")
  show ?case
  proof (cases e1)
    case None
    with Cons.prems sc have "scan_rows h rows (acc @ [item]) = (out, e)" by simp
    from Cons.IH [OF this Cons.prems(2)] sc show ?thesis by auto
  next
    case (Some err)
    with Cons.prems sc show ?thesis by simp
  qed
qed

lemma scan_rows_length:
  "length (fst (scan_rows h rows acc)) \<le> length acc + length rows"
proof (induction rows arbitrary: acc)
  case Nil
  then show ?case by simp
next
  case (Cons r rows)
  obtain item e1 where sc: "scanFUOTADeployment h (Inr r) = (item, e1)"
    by (cases "scanFUOTADeployment h (Inr r)")
  show ?case
  proof (cases e1)
    case None
    with sc Cons.IH [of "acc @ [item]"] show ?thesis by simp
  next
    case (Some err)
    with sc show ?thesis by simp
  qed
qed


lemma map_if_id: "\<forall>r\<in>set rows. c_id r \<noteq> i \<Longrightarrow> map (\<lambda>r. if c_id r = i then f r else r) rows = rows"
  by (induction rows) auto

lemma filter_none: "\<forall>r\<in>set rows. c_id r \<noteq> i \<Longrightarrow> filter (\<lambda>r. c_id r = i) rows = []"
  by (induction rows) auto

lemma Update_fst: "fst (UpdateFUOTADeployment h now drv ra d fd) = fd\<lparr>UpdatedAt := now\<rparr>"
  by (simp add: UpdateFUOTADeployment_def Exec_update_fuota_deployment_def Let_def
      split: option.splits)

lemma Update_err:
  "snd (snd (UpdateFUOTADeployment h now None None d fd)) =
     (if \<exists>r\<in>set (fuota_deployment d). c_id r = ID fd then None else Some ErrDoesNotExist)"
  by (auto simp: UpdateFUOTADeployment_def Exec_update_fuota_deployment_def Let_def
      filter_empty_conv)

lemma Update_rows:
  "fuota_deployment (fst (snd (UpdateFUOTADeployment h now None ra d fd))) =
     map (\<lambda>r. if c_id r = ID fd then
          r\<lparr>c_updated_at := now,
                    c_name := Name fd,
                    c_multicast_group_id := MulticastGroupID fd,
                    c_fragmentation_matrix := [FragmentationMatrix fd],
                    c_descriptor := slice4 (Descriptor fd),
                    c_payload := Payload fd,
                    c_state := State fd,
                    c_next_step_after := NextStepAfter fd,
                    c_unicast_timeout := UnicastTimeout fd,
                    c_frag_size := FragSize fd,
                    c_redundancy := Redundancy fd,
                    c_block_ack_delay := BlockAckDelay fd,
                    c_multicast_timeout := MulticastTimeout fd\<rparr> else r) (fuota_deployment d)"
  by (simp add: UpdateFUOTADeployment_def Exec_update_fuota_deployment_def Let_def
      split: option.splits)

lemma Update_rows_fault:
  "fst (snd (UpdateFUOTADeployment h now (Some e) ra d fd)) = d"
  by (simp add: UpdateFUOTADeployment_def Exec_update_fuota_deployment_def Let_def)

lemma Update_success_drv:
  "snd (snd (UpdateFUOTADeployment h now drv ra d fd)) = None \<Longrightarrow> drv = None \<and> ra = None
     \<and> (\<exists>r\<in>set (fuota_deployment d). c_id r = ID fd)"
  by (auto simp: UpdateFUOTADeployment_def Exec_update_fuota_deployment_def Let_def
      filter_empty_conv split: option.splits if_splits)

lemma Update_ids:
  "map c_id (fuota_deployment (fst (snd (UpdateFUOTADeployment h now drv ra d fd))))
     = map c_id (fuota_deployment d)"
proof (cases drv)
  case None
  then show ?thesis
    by (simp add: Update_rows o_def if_distrib cong: if_cong)
next
  case (Some e)
  then show ?thesis by (simp add: Update_rows_fault)
qed

lemma Create_success:
  assumes "CreateFUOTADeploymentForDevice h now newV4 drv1 drv2 d fd devEUI = (fd', d', None)"
  shows "fd' = fd\<lparr>ID := fst newV4, CreatedAt := now, UpdatedAt := now, NextStepAfter := now,
                   State := (if State fd = [] then FUOTADeploymentMulticastSetup else State fd)\<rparr>"
    and "fuota_deployment d' = fuota_deployment d @
           [\<lparr>c_id = ID fd',
             c_created_at = CreatedAt fd',
             c_updated_at = UpdatedAt fd',
             c_name = Name fd',
             c_multicast_group_id = MulticastGroupID fd',
             c_fragmentation_matrix = [FragmentationMatrix fd'],
             c_descriptor = slice4 (Descriptor fd'),
             c_payload = Payload fd',
             c_state = State fd',
             c_next_step_after = NextStepAfter fd',
             c_unicast_timeout = UnicastTimeout fd',
             c_frag_size = FragSize fd',
             c_redundancy = Redundancy fd',
             c_block_ack_delay = BlockAckDelay fd',
             c_multicast_timeout = MulticastTimeout fd'\<rparr>]"
    and "fuota_deployment_device d' = fuota_deployment_device d @
           [\<lparr>dd_fuota_deployment_id = ID fd',
             dd_dev_eui = devEUI,
             dd_created_at = now,
             dd_updated_at = now,
             dd_state = FUOTADeploymentDevicePending,
             dd_error_message = []\<rparr>]"
    and "locked d' = locked d"
  using assms
  by (auto simp: CreateFUOTADeploymentForDevice_def Exec_insert_fuota_deployment_def
      Exec_insert_fuota_deployment_device_def Let_def split: option.splits if_splits)

lemma test_create:
  "CreateFUOTADeploymentForDevice handlePSQLError 100 (1, None) None None empty_db test_fd test_devEUI
     = (created_fd, test_db, None)"
  by (simp add: CreateFUOTADeploymentForDevice_def Exec_insert_fuota_deployment_def
      Exec_insert_fuota_deployment_device_def Let_def test_fd_def empty_db_def test_db_def
      test_row_def test_device_row_def created_fd_def test_devEUI_def
      FUOTADeploymentMulticastSetup_def FUOTADeploymentDevicePending_def)

lemma test_create2:
  "CreateFUOTADeploymentForDevice handlePSQLError 300 (2, None) None None test_db test_fd
      test_devEUI
   = (test_fd\<lparr>ID := 2, CreatedAt := 300, UpdatedAt := 300, NextStepAfter := 300,
               State := ''MC_SETUP''\<rparr>,
      test_db\<lparr>fuota_deployment := [test_row,
                 test_row\<lparr>c_id := 2, c_created_at := 300, c_updated_at := 300,
                          c_next_step_after := 300\<rparr>],
              fuota_deployment_device := [test_device_row,
                 test_device_row\<lparr>dd_fuota_deployment_id := 2, dd_created_at := 300,
                                 dd_updated_at := 300\<rparr>]\<rparr>,
      None)"
  by (simp add: exec_defs test_defs)

text \<open>
  What the function leaves behind when the second insert fails: the deployment row is in
  the table and the participation row is not. Undoing the first insert is left to the
  transaction of the caller.
\<close>

lemma create_second_insert_fails:
  "CreateFUOTADeploymentForDevice h now (u, None) None (Some err) d fd devEUI = (fd', d', e) \<Longrightarrow>
     e = Some (h Insert err ''insert error'')
     \<and> (\<exists>r. fuota_deployment d' = fuota_deployment d @ [r] \<and> c_id r = u)
     \<and> fuota_deployment_device d' = fuota_deployment_device d"
  by (auto simp: CreateFUOTADeploymentForDevice_def Exec_insert_fuota_deployment_def
      Exec_insert_fuota_deployment_device_def Let_def split: if_splits)

subsection \<open>The pending query\<close>

text \<open>
  C1. Every deployment that \<^verbatim>\<open>GetPendingFUOTADeployments\<close> returns satisfies the three
  conjuncts of the selection predicate: its state is not \<^verbatim>\<open>DONE\<close>, its
  \<^verbatim>\<open>next_step_after\<close> is at or before the query time, and its multicast group is set.
  It is the scan of a stored row that satisfies them, so a row without multicast group is
  never returned, whatever its \<^verbatim>\<open>next_step_after\<close>, and neither is a row in state
  \<^verbatim>\<open>DONE\<close>.
\<close>

theorem pending_selection:
  assumes "GetPendingFUOTADeployments h now drv fetch d batchSize = (out, err)"
    and "fd \<in> set out"
  shows "State fd \<noteq> FUOTADeploymentDone \<and> NextStepAfter fd \<le> now \<and> MulticastGroupID fd \<noteq> None
       \<and> (\<exists>r\<in>set (fuota_deployment d).
              fd = fst (scanFUOTADeployment h (Inr r))
              \<and> c_state r \<noteq> FUOTADeploymentDone \<and> c_next_step_after r \<le> now
              \<and> c_multicast_group_id r \<noteq> None)"
proof -
  from assms obtain rows where q: "Queryx_pending drv d FUOTADeploymentDone now batchSize = Inr rows"
    and s: "scan_rows h (rows_Next fetch rows) [] = (out, err)"
    by (auto simp: GetPendingFUOTADeployments_def split: sum.splits)
  from scan_rows_mem [OF s assms(2)] obtain r where "r \<in> set (rows_Next fetch rows)"
    and fd: "fst (scanFUOTADeployment h (Inr r)) = fd" by auto
  then have r: "r \<in> set rows" by (simp add: set_rows_Next)
  from q r have "r \<in> set (filter (pending_where d FUOTADeploymentDone now) (fuota_deployment d))"
    by (auto simp: Queryx_pending_def split: option.splits if_splits dest: in_set_takeD)
  then have m: "r \<in> set (fuota_deployment d)" and p: "pending_where d FUOTADeploymentDone now r"
    by simp_all
  from fd have f: "State fd = c_state r \<and> NextStepAfter fd = c_next_step_after r
     \<and> MulticastGroupID fd = c_multicast_group_id r"
    using scan_fields [of h r fd "snd (scanFUOTADeployment h (Inr r))"] by (metis prod.collapse)
  from p have p': "c_state r \<noteq> FUOTADeploymentDone \<and> c_next_step_after r \<le> now
     \<and> c_multicast_group_id r \<noteq> None"
    by (simp add: pending_where_def)
  from m fd p' have "\<exists>r\<in>set (fuota_deployment d).
              fd = fst (scanFUOTADeployment h (Inr r))
              \<and> c_state r \<noteq> FUOTADeploymentDone \<and> c_next_step_after r \<le> now
              \<and> c_multicast_group_id r \<noteq> None"
    by blast
  with f p' show ?thesis by simp
qed

text \<open>
  The theorem at a store of five rows, of which one is due, linked and unlocked: the
  query at time \<open>150\<close>, with a row stream that does not fail, returns that one.
\<close>

theorem pending_selection_witness:
  "GetPendingFUOTADeployments handlePSQLError 150 None None test_db3 10 = ([created_fd], None)
   \<and> created_fd \<in> set [created_fd]
   \<and> State created_fd \<noteq> FUOTADeploymentDone \<and> NextStepAfter created_fd \<le> 150
   \<and> MulticastGroupID created_fd \<noteq> None"
proof -
  have g: "GetPendingFUOTADeployments handlePSQLError 150 None None test_db3 10 = ([created_fd], None)"
    by (simp add: exec_defs test_defs)
  have m: "created_fd \<in> set [created_fd]" by simp
  from pending_selection [OF g m] g show ?thesis by simp
qed

text \<open>
  C8. For a non-negative batch size, \<^verbatim>\<open>GetPendingFUOTADeployments\<close> returns at most
  that many deployments.
\<close>

theorem batch_bound:
  "0 \<le> sint batchSize \<Longrightarrow>
     int (length (fst (GetPendingFUOTADeployments h now drv fetch d batchSize))) \<le> sint batchSize"
proof -
  assume nn: "0 \<le> sint batchSize"
  have "sint batchSize < 2 ^ 64"
    using sint_lt [of batchSize] by simp
  with nn have "take_bit 64 (sint batchSize) = sint batchSize"
    by (simp add: take_bit_int_eq_self)
  then have u: "int (unat batchSize) = sint batchSize"
    using uint_sint [of batchSize] by simp
  show ?thesis
  proof (cases "Queryx_pending drv d FUOTADeploymentDone now batchSize")
    case (Inl e)
    then show ?thesis using nn by (simp add: GetPendingFUOTADeployments_def)
  next
    case (Inr rows)
    then have "length rows \<le> unat batchSize"
      by (auto simp: Queryx_pending_def split: option.splits if_splits)
    moreover have "length (fst (scan_rows h (rows_Next fetch rows) [])) \<le> length rows"
      using scan_rows_length [of h "rows_Next fetch rows" "[]"] length_rows_Next [of fetch rows]
      by simp
    ultimately have "int (length (fst (scan_rows h (rows_Next fetch rows) []))) \<le> int (unat batchSize)"
      by linarith
    with u Inr show ?thesis by (simp add: GetPendingFUOTADeployments_def)
  qed
qed

text \<open>
  The theorem at a store with two due deployments and a row stream that does not fail: a
  batch size of \<open>1\<close> returns one of them, a batch size of \<open>2\<close> both.
\<close>

theorem batch_bound_witness:
  "0 \<le> sint (1 :: go_int)
   \<and> int (length (fst (GetPendingFUOTADeployments handlePSQLError 150 None None test_db2 1)))
       \<le> sint (1 :: go_int)
   \<and> length (fst (GetPendingFUOTADeployments handlePSQLError 150 None None test_db2 2)) = 2"
  using batch_bound [of 1 handlePSQLError 150 None None test_db2]
  by (simp add: exec_defs test_defs)

subsection \<open>Malformed rows\<close>




subsection \<open>Creation\<close>

text \<open>
  C3, as stated, fails: a deployment handed to \<^verbatim>\<open>CreateFUOTADeploymentForDevice\<close>
  with the state \<^verbatim>\<open>DONE\<close> is created in the state \<^verbatim>\<open>DONE\<close>, in the struct and in
  the table, since the function sets the initial state only where the state is empty.
\<close>

theorem create_keeps_given_state:
  "snd (snd (CreateFUOTADeploymentForDevice handlePSQLError 100 (1, None) None None empty_db
               (test_fd\<lparr>State := FUOTADeploymentDone\<rparr>) test_devEUI)) = None
   \<and> State (fst (CreateFUOTADeploymentForDevice handlePSQLError 100 (1, None) None None empty_db
               (test_fd\<lparr>State := FUOTADeploymentDone\<rparr>) test_devEUI)) = ''DONE''
   \<and> map c_state (fuota_deployment (fst (snd (CreateFUOTADeploymentForDevice handlePSQLError 100
               (1, None) None None empty_db
               (test_fd\<lparr>State := FUOTADeploymentDone\<rparr>) test_devEUI)))) = [''DONE'']
   \<and> ''DONE'' \<noteq> FUOTADeploymentMulticastSetup"
  by (simp add: exec_defs test_defs)

text \<open>
  C3 (amended). After a successful \<^verbatim>\<open>CreateFUOTADeploymentForDevice\<close> the deployment
  is in the state \<^verbatim>\<open>MC_SETUP\<close> if it was handed over with an empty state, and in the
  state it was handed over with otherwise; its \<^verbatim>\<open>next_step_after\<close> and its
  \<^verbatim>\<open>created_at\<close> are the creation time. The same holds of the inserted row.
\<close>

theorem create_initial_state:
  assumes "CreateFUOTADeploymentForDevice h now newV4 drv1 drv2 d fd devEUI = (fd', d', None)"
  shows "State fd' = (if State fd = [] then FUOTADeploymentMulticastSetup else State fd)
       \<and> NextStepAfter fd' = now \<and> CreatedAt fd' = now
       \<and> (\<exists>r. fuota_deployment d' = fuota_deployment d @ [r]
              \<and> c_id r = ID fd' \<and> c_state r = State fd'
              \<and> c_next_step_after r = now \<and> c_created_at r = now)"
proof -
  note c = Create_success [OF assms]
  have "State fd' = (if State fd = [] then FUOTADeploymentMulticastSetup else State fd)"
    by (subst c(1)) simp
  moreover have "NextStepAfter fd' = now" "CreatedAt fd' = now"
    by (subst c(1), simp)+
  ultimately show ?thesis using c(2) by simp
qed

text \<open>
  The theorem at the deployment of the test, which has an empty state.
\<close>

theorem create_initial_state_witness:
  "CreateFUOTADeploymentForDevice handlePSQLError 100 (1, None) None None empty_db test_fd
      test_devEUI = (created_fd, test_db, None)
   \<and> State test_fd = []
   \<and> State created_fd = FUOTADeploymentMulticastSetup
   \<and> NextStepAfter created_fd = 100 \<and> CreatedAt created_fd = 100"
  using create_initial_state [OF test_create] test_create
  by (simp add: test_fd_def)

text \<open>
  C4, as stated, fails on two of the attributes it lists: a deployment handed over with
  an empty state and the \<^verbatim>\<open>next_step_after\<close> \<open>500\<close>, created at time \<open>100\<close>, is
  read back with the state \<^verbatim>\<open>MC_SETUP\<close> and the \<^verbatim>\<open>next_step_after\<close> \<open>100\<close>.
\<close>

theorem create_overrides_given_values:
  "snd (snd (CreateFUOTADeploymentForDevice handlePSQLError 100 (1, None) None None empty_db
               (test_fd\<lparr>NextStepAfter := 500\<rparr>) test_devEUI)) = None
   \<and> snd (GetFUOTADeployment handlePSQLError None
            (fst (snd (CreateFUOTADeploymentForDevice handlePSQLError 100 (1, None) None None
                         empty_db (test_fd\<lparr>NextStepAfter := 500\<rparr>) test_devEUI))) 1 False) = None
   \<and> NextStepAfter (test_fd\<lparr>NextStepAfter := 500\<rparr>) = 500
   \<and> NextStepAfter (fst (GetFUOTADeployment handlePSQLError None
            (fst (snd (CreateFUOTADeploymentForDevice handlePSQLError 100 (1, None) None None
                         empty_db (test_fd\<lparr>NextStepAfter := 500\<rparr>) test_devEUI))) 1 False)) = 100
   \<and> State (test_fd\<lparr>NextStepAfter := 500\<rparr>) = []
   \<and> State (fst (GetFUOTADeployment handlePSQLError None
            (fst (snd (CreateFUOTADeploymentForDevice handlePSQLError 100 (1, None) None None
                         empty_db (test_fd\<lparr>NextStepAfter := 500\<rparr>) test_devEUI))) 1 False))
       = ''MC_SETUP''"
  by (simp add: exec_defs test_defs)

text \<open>
  C4 (amended). After a successful \<^verbatim>\<open>CreateFUOTADeploymentForDevice\<close> with an
  identifier that no stored deployment has, \<^verbatim>\<open>GetFUOTADeployment\<close> by that identifier
  returns, without error, the struct as the creation left it. In it the name, the multicast
  group, the fragmentation matrix, the descriptor, the payload, the fragment size, the
  redundancy, the block-ack delay, the multicast timeout and the unicast timeout are the
  given values; the state is the given one, or \<^verbatim>\<open>MC_SETUP\<close> if that was empty; the
  \<^verbatim>\<open>next_step_after\<close> is the creation time.
\<close>

theorem create_then_get:
  assumes "CreateFUOTADeploymentForDevice h now newV4 drv1 drv2 d fd devEUI = (fd', d', None)"
    and "\<forall>r\<in>set (fuota_deployment d). c_id r \<noteq> fst newV4"
  shows "GetFUOTADeployment h None d' (ID fd') forUpdate = (fd', None)
       \<and> Name fd' = Name fd
       \<and> MulticastGroupID fd' = MulticastGroupID fd
       \<and> FragmentationMatrix fd' = FragmentationMatrix fd
       \<and> Descriptor fd' = Descriptor fd
       \<and> Payload fd' = Payload fd
       \<and> FragSize fd' = FragSize fd
       \<and> Redundancy fd' = Redundancy fd
       \<and> BlockAckDelay fd' = BlockAckDelay fd
       \<and> MulticastTimeout fd' = MulticastTimeout fd
       \<and> UnicastTimeout fd' = UnicastTimeout fd
       \<and> State fd' = (if State fd = [] then FUOTADeploymentMulticastSetup else State fd)
       \<and> NextStepAfter fd' = now"
proof -
  note c = Create_success [OF assms(1)]
  have i: "ID fd' = fst newV4" by (subst c(1)) simp
  let ?row = "\<lparr>c_id = ID fd',
             c_created_at = CreatedAt fd',
             c_updated_at = UpdatedAt fd',
             c_name = Name fd',
             c_multicast_group_id = MulticastGroupID fd',
             c_fragmentation_matrix = [FragmentationMatrix fd'],
             c_descriptor = slice4 (Descriptor fd'),
             c_payload = Payload fd',
             c_state = State fd',
             c_next_step_after = NextStepAfter fd',
             c_unicast_timeout = UnicastTimeout fd',
             c_frag_size = FragSize fd',
             c_redundancy = Redundancy fd',
             c_block_ack_delay = BlockAckDelay fd',
             c_multicast_timeout = MulticastTimeout fd'\<rparr>"
  have "filter (\<lambda>r. c_id r = ID fd') (fuota_deployment d') = [?row]"
    using assms(2) i by (simp add: c(2) filter_none)
  then have "QueryRowx_fuota_deployment None d' (ID fd') forUpdate = Inr ?row"
    by (simp add: QueryRowx_fuota_deployment_def)
  then have g: "GetFUOTADeployment h None d' (ID fd') forUpdate = (fd', None)"
    by (simp only: GetFUOTADeployment_def scan_well_formed)
  have f: "Name fd' = Name fd" "MulticastGroupID fd' = MulticastGroupID fd"
    "FragmentationMatrix fd' = FragmentationMatrix fd" "Descriptor fd' = Descriptor fd"
    "Payload fd' = Payload fd" "FragSize fd' = FragSize fd" "Redundancy fd' = Redundancy fd"
    "BlockAckDelay fd' = BlockAckDelay fd" "MulticastTimeout fd' = MulticastTimeout fd"
    "UnicastTimeout fd' = UnicastTimeout fd"
    "State fd' = (if State fd = [] then FUOTADeploymentMulticastSetup else State fd)"
    "NextStepAfter fd' = now"
    by (subst c(1), simp)+
  from g f show ?thesis by simp
qed

text \<open>
  The theorem at a second creation in the store of the test.
\<close>

theorem create_then_get_witness:
  "map c_id (fuota_deployment test_db) = [1]
   \<and> snd (snd (CreateFUOTADeploymentForDevice handlePSQLError 300 (2, None) None None test_db
                  test_fd test_devEUI)) = None
   \<and> GetFUOTADeployment handlePSQLError None
        (fst (snd (CreateFUOTADeploymentForDevice handlePSQLError 300 (2, None) None None test_db
                  test_fd test_devEUI))) 2 False
      = (test_fd\<lparr>ID := 2, CreatedAt := 300, UpdatedAt := 300, NextStepAfter := 300,
                  State := ''MC_SETUP''\<rparr>, None)"
proof -
  have f: "\<forall>r\<in>set (fuota_deployment test_db). c_id r \<noteq> fst (2 :: UUID, None :: string option)"
    by (simp add: test_defs)
  have i: "map c_id (fuota_deployment test_db) = [1]"
    by (simp add: test_defs)
  from create_then_get [OF test_create2 f, of False] i show ?thesis
    by (simp add: test_create2)
qed

text \<open>
  C5, as stated, fails in its last part: the two rows are not created atomically. When
  the second insert fails, \<^verbatim>\<open>CreateFUOTADeploymentForDevice\<close> returns the error and
  leaves the deployment row in the table, with no participation row.
\<close>

theorem create_not_atomic:
  "snd (snd (CreateFUOTADeploymentForDevice handlePSQLError 100 (1, None) None
               (Some (other_error ''foreign key violation'')) empty_db test_fd test_devEUI))
     = Some (Wrap (other_error ''foreign key violation'') ''insert error'')
   \<and> fuota_deployment (fst (snd (CreateFUOTADeploymentForDevice handlePSQLError 100 (1, None)
               None (Some (other_error ''foreign key violation'')) empty_db test_fd test_devEUI)))
     = [test_row]
   \<and> fuota_deployment_device (fst (snd (CreateFUOTADeploymentForDevice handlePSQLError 100
               (1, None) None (Some (other_error ''foreign key violation'')) empty_db test_fd
               test_devEUI)))
     = []"
  by (simp add: exec_defs test_defs)

text \<open>
  C5 (amended). After a successful \<^verbatim>\<open>CreateFUOTADeploymentForDevice\<close>, where no
  participation row with the new identifier and the device existed before, there is
  exactly one participation row with that key; its state is \<^verbatim>\<open>PENDING\<close> and its error
  message is empty. The same call has added the deployment row and this participation
  row, each at the end of its table, and where no participation row had the new identifier
  at all, \<^verbatim>\<open>GetFUOTADeploymentDeviceCount\<close> of the new deployment is \<open>1\<close>. The two
  rows are inserted by two statements of that call: when the second one fails, the call
  returns the error that \<^verbatim>\<open>handlePSQLError\<close> makes of it, the deployment row stays in the
  table and no participation row is added.
\<close>

theorem create_participation_record:
  "(CreateFUOTADeploymentForDevice h now newV4 drv1 drv2 d fd devEUI = (fd', d', None)
    \<and> (\<forall>r\<in>set (fuota_deployment_device d).
           \<not> (dd_fuota_deployment_id r = fst newV4 \<and> dd_dev_eui r = devEUI)) \<longrightarrow>
      filter (\<lambda>r. dd_fuota_deployment_id r = ID fd' \<and> dd_dev_eui r = devEUI)
            (fuota_deployment_device d')
          = [\<lparr>dd_fuota_deployment_id = ID fd', dd_dev_eui = devEUI, dd_created_at = now,
               dd_updated_at = now, dd_state = FUOTADeploymentDevicePending,
               dd_error_message = []\<rparr>]
       \<and> (\<exists>r. fuota_deployment d' = fuota_deployment d @ [r] \<and> c_id r = ID fd')
       \<and> fuota_deployment_device d' = fuota_deployment_device d @
            [\<lparr>dd_fuota_deployment_id = ID fd', dd_dev_eui = devEUI, dd_created_at = now,
               dd_updated_at = now, dd_state = FUOTADeploymentDevicePending,
               dd_error_message = []\<rparr>]
       \<and> ((\<forall>r\<in>set (fuota_deployment_device d). dd_fuota_deployment_id r \<noteq> fst newV4) \<longrightarrow>
            GetFUOTADeploymentDeviceCount h None d' (ID fd') = (1, None)))
   \<and> snd (snd (CreateFUOTADeploymentForDevice h now (u, None) None (Some e) d fd devEUI))
        = Some (h Insert e ''insert error'')
   \<and> (\<exists>r. fuota_deployment
               (fst (snd (CreateFUOTADeploymentForDevice h now (u, None) None (Some e) d fd devEUI)))
             = fuota_deployment d @ [r] \<and> c_id r = u)
   \<and> fuota_deployment_device
         (fst (snd (CreateFUOTADeploymentForDevice h now (u, None) None (Some e) d fd devEUI)))
       = fuota_deployment_device d"
proof -
  have ok: "filter (\<lambda>r. dd_fuota_deployment_id r = ID fd' \<and> dd_dev_eui r = devEUI)
            (fuota_deployment_device d')
          = [\<lparr>dd_fuota_deployment_id = ID fd', dd_dev_eui = devEUI, dd_created_at = now,
               dd_updated_at = now, dd_state = FUOTADeploymentDevicePending,
               dd_error_message = []\<rparr>]
       \<and> (\<exists>r. fuota_deployment d' = fuota_deployment d @ [r] \<and> c_id r = ID fd')
       \<and> fuota_deployment_device d' = fuota_deployment_device d @
            [\<lparr>dd_fuota_deployment_id = ID fd', dd_dev_eui = devEUI, dd_created_at = now,
               dd_updated_at = now, dd_state = FUOTADeploymentDevicePending,
               dd_error_message = []\<rparr>]
       \<and> ((\<forall>r\<in>set (fuota_deployment_device d). dd_fuota_deployment_id r \<noteq> fst newV4) \<longrightarrow>
            GetFUOTADeploymentDeviceCount h None d' (ID fd') = (1, None))"
    if cr: "CreateFUOTADeploymentForDevice h now newV4 drv1 drv2 d fd devEUI = (fd', d', None)"
      and fr: "\<forall>r\<in>set (fuota_deployment_device d).
           \<not> (dd_fuota_deployment_id r = fst newV4 \<and> dd_dev_eui r = devEUI)"
  proof -
    note c = Create_success [OF cr]
    have i: "ID fd' = fst newV4" by (subst c(1)) simp
    have "filter (\<lambda>r. dd_fuota_deployment_id r = ID fd' \<and> dd_dev_eui r = devEUI)
              (fuota_deployment_device d) = []"
      using fr i by (simp add: filter_empty_conv)
    then have a: "filter (\<lambda>r. dd_fuota_deployment_id r = ID fd' \<and> dd_dev_eui r = devEUI)
              (fuota_deployment_device d')
            = [\<lparr>dd_fuota_deployment_id = ID fd', dd_dev_eui = devEUI, dd_created_at = now,
                 dd_updated_at = now, dd_state = FUOTADeploymentDevicePending,
                 dd_error_message = []\<rparr>]"
      by (simp add: c(3))
    have b: "\<exists>r. fuota_deployment d' = fuota_deployment d @ [r] \<and> c_id r = ID fd'"
      using c(2) by simp
    have e: "GetFUOTADeploymentDeviceCount h None d' (ID fd') = (1, None)"
      if "\<forall>r\<in>set (fuota_deployment_device d). dd_fuota_deployment_id r \<noteq> fst newV4"
    proof -
      from that i have "filter (\<lambda>r. dd_fuota_deployment_id r = ID fd') (fuota_deployment_device d) = []"
        by (simp add: filter_empty_conv)
      then show ?thesis
        by (simp add: GetFUOTADeploymentDeviceCount_def Get_device_count_def c(3))
    qed
    from a b c(3) e show ?thesis by blast
  qed
  obtain fd2 d2 e2 where f:
    "CreateFUOTADeploymentForDevice h now (u, None) None (Some e) d fd devEUI = (fd2, d2, e2)"
    by (metis prod_cases3)
  from create_second_insert_fails [OF f]
  have fl: "e2 = Some (h Insert e ''insert error'')"
    "\<exists>r. fuota_deployment d2 = fuota_deployment d @ [r] \<and> c_id r = u"
    "fuota_deployment_device d2 = fuota_deployment_device d"
    by simp_all
  have p2: "snd (snd (CreateFUOTADeploymentForDevice h now (u, None) None (Some e) d fd devEUI))
        = Some (h Insert e ''insert error'')"
    using fl(1) by (simp add: f)
  have p3: "\<exists>r. fuota_deployment
               (fst (snd (CreateFUOTADeploymentForDevice h now (u, None) None (Some e) d fd devEUI)))
             = fuota_deployment d @ [r] \<and> c_id r = u"
    using fl(2) by (simp add: f)
  have p4: "fuota_deployment_device
         (fst (snd (CreateFUOTADeploymentForDevice h now (u, None) None (Some e) d fd devEUI)))
       = fuota_deployment_device d"
    using fl(3) by (simp add: f)
  from ok p2 p3 p4 show ?thesis by blast
qed

text \<open>
  The theorem at a second creation for the same device in the store of the test, once
  with both inserts executed and once with the second one failing.
\<close>

theorem create_participation_record_witness:
  "map (\<lambda>r. (dd_fuota_deployment_id r, dd_dev_eui r)) (fuota_deployment_device test_db)
     = [(1, test_devEUI)]
   \<and> snd (snd (CreateFUOTADeploymentForDevice handlePSQLError 300 (2, None) None None test_db
                  test_fd test_devEUI)) = None
   \<and> filter (\<lambda>r. dd_fuota_deployment_id r = 2 \<and> dd_dev_eui r = test_devEUI)
        (fuota_deployment_device (fst (snd (CreateFUOTADeploymentForDevice handlePSQLError 300
            (2, None) None None test_db test_fd test_devEUI))))
      = [\<lparr>dd_fuota_deployment_id = 2, dd_dev_eui = test_devEUI, dd_created_at = 300,
           dd_updated_at = 300, dd_state = FUOTADeploymentDevicePending,
           dd_error_message = []\<rparr>]
   \<and> snd (snd (CreateFUOTADeploymentForDevice handlePSQLError 300 (2, None) None
                  (Some (other_error ''foreign key violation'')) test_db test_fd test_devEUI))
      = Some (Wrap (other_error ''foreign key violation'') ''insert error'')
   \<and> fuota_deployment_device (fst (snd (CreateFUOTADeploymentForDevice handlePSQLError 300
            (2, None) None (Some (other_error ''foreign key violation'')) test_db test_fd
            test_devEUI)))
      = [test_device_row]"
proof -
  define C where "C = CreateFUOTADeploymentForDevice handlePSQLError 300 (2, None) None None
    test_db test_fd test_devEUI"
  have e: "snd (snd C) = None" and i: "ID (fst C) = 2"
    by (simp_all add: C_def test_create2)
  have c: "CreateFUOTADeploymentForDevice handlePSQLError 300 (2, None) None None
    test_db test_fd test_devEUI = (fst C, fst (snd C), None)"
    using e by (simp add: C_def prod_eq_iff)
  have f: "\<forall>r\<in>set (fuota_deployment_device test_db).
       \<not> (dd_fuota_deployment_id r = fst (2 :: UUID, None :: string option)
          \<and> dd_dev_eui r = test_devEUI)"
    by (simp add: test_defs)
  note t = create_participation_record [of handlePSQLError 300 "(2, None)" None None test_db
      test_fd test_devEUI "fst C" "fst (snd C)" 2 "other_error ''foreign key violation''"]
  from t c f
  have "filter (\<lambda>r. dd_fuota_deployment_id r = ID (fst C) \<and> dd_dev_eui r = test_devEUI)
        (fuota_deployment_device (fst (snd C)))
      = [\<lparr>dd_fuota_deployment_id = ID (fst C), dd_dev_eui = test_devEUI, dd_created_at = 300,
           dd_updated_at = 300, dd_state = FUOTADeploymentDevicePending,
           dd_error_message = []\<rparr>]"
    by blast
  then have a: "filter (\<lambda>r. dd_fuota_deployment_id r = 2 \<and> dd_dev_eui r = test_devEUI)
        (fuota_deployment_device (fst (snd C)))
      = [\<lparr>dd_fuota_deployment_id = 2, dd_dev_eui = test_devEUI, dd_created_at = 300,
           dd_updated_at = 300, dd_state = FUOTADeploymentDevicePending,
           dd_error_message = []\<rparr>]"
    unfolding i .
  from t have b: "snd (snd (CreateFUOTADeploymentForDevice handlePSQLError 300 (2, None) None
                  (Some (other_error ''foreign key violation'')) test_db test_fd test_devEUI))
      = Some (handlePSQLError Insert (other_error ''foreign key violation'') ''insert error'')"
    and g: "fuota_deployment_device (fst (snd (CreateFUOTADeploymentForDevice handlePSQLError 300
            (2, None) None (Some (other_error ''foreign key violation'')) test_db test_fd
            test_devEUI)))
      = fuota_deployment_device test_db"
    by blast+
  have "map (\<lambda>r. (dd_fuota_deployment_id r, dd_dev_eui r))
      (fuota_deployment_device test_db) = [(1, test_devEUI)]"
    "fuota_deployment_device test_db = [test_device_row]"
    "handlePSQLError Insert (other_error ''foreign key violation'') ''insert error''
      = Wrap (other_error ''foreign key violation'') ''insert error''"
    by (simp_all add: test_defs handlePSQLError_def)
  with a b g e show ?thesis unfolding C_def by simp
qed

subsection \<open>Update\<close>

text \<open>
  C2, as stated, fails: two successive updates of the same deployment, both successful,
  persist the \<^verbatim>\<open>next_step_after\<close> \<open>300\<close> and then \<open>50\<close>.
\<close>

theorem next_step_after_not_monotone:
  "snd (snd first_update) = None \<and> snd (snd second_update) = None
   \<and> map c_id (fuota_deployment (fst (snd first_update))) = [ID created_fd]
   \<and> map c_next_step_after (fuota_deployment (fst (snd first_update))) = [300]
   \<and> map c_id (fuota_deployment (fst (snd second_update))) = [ID created_fd]
   \<and> map c_next_step_after (fuota_deployment (fst (snd second_update))) = [50]
   \<and> \<not> (300 :: Time) \<le> 50"
  by (simp add: first_update_def second_update_def exec_defs test_defs)

text \<open>
  C2 (amended). A successful \<^verbatim>\<open>UpdateFUOTADeployment\<close> persists the
  \<^verbatim>\<open>next_step_after\<close> of the struct it is given in every row with the struct's
  identifier, of which there is at least one, and leaves the other rows as they are. It
  does not compare the value with the stored one: the new value is not earlier than the
  stored one exactly when the caller's value is not.
\<close>

theorem update_persists_given_next_step_after:
  assumes "snd (snd (UpdateFUOTADeployment h now drv ra d fd)) = None"
  shows "length (fuota_deployment (fst (snd (UpdateFUOTADeployment h now drv ra d fd))))
           = length (fuota_deployment d)
       \<and> (\<exists>i<length (fuota_deployment d). c_id (fuota_deployment d ! i) = ID fd)
       \<and> (\<forall>i<length (fuota_deployment d).
             if c_id (fuota_deployment d ! i) = ID fd
             then c_next_step_after
                    (fuota_deployment (fst (snd (UpdateFUOTADeployment h now drv ra d fd))) ! i)
                  = NextStepAfter fd
             else fuota_deployment (fst (snd (UpdateFUOTADeployment h now drv ra d fd))) ! i
                  = fuota_deployment d ! i)"
proof -
  from Update_success_drv [OF assms] have drv: "drv = None"
    and ex: "\<exists>r\<in>set (fuota_deployment d). c_id r = ID fd" by simp_all
  from ex have "\<exists>i<length (fuota_deployment d). c_id (fuota_deployment d ! i) = ID fd"
    by (metis in_set_conv_nth)
  then show ?thesis unfolding drv by (simp add: Update_rows)
qed

text \<open>
  The theorem at an update that moves the stored value \<open>100\<close> back to \<open>50\<close>.
\<close>

theorem update_persists_given_next_step_after_witness:
  "snd (snd (UpdateFUOTADeployment handlePSQLError 200 None None test_db
               (created_fd\<lparr>NextStepAfter := 50\<rparr>))) = None
   \<and> map c_next_step_after (fuota_deployment test_db) = [100]
   \<and> c_next_step_after (fuota_deployment (fst (snd (UpdateFUOTADeployment handlePSQLError 200
          None None test_db (created_fd\<lparr>NextStepAfter := 50\<rparr>)))) ! 0) = 50"
proof -
  have s: "snd (snd (UpdateFUOTADeployment handlePSQLError 200 None None test_db
               (created_fd\<lparr>NextStepAfter := 50\<rparr>))) = None"
    by (simp add: exec_defs test_defs)
  have i: "c_id (fuota_deployment test_db ! 0) = ID (created_fd\<lparr>NextStepAfter := 50\<rparr>)"
    by (simp add: test_defs)
  have l: "0 < length (fuota_deployment test_db)" by (simp add: test_defs)
  from update_persists_given_next_step_after [OF s] l i
  have "c_next_step_after (fuota_deployment (fst (snd (UpdateFUOTADeployment handlePSQLError 200
          None None test_db (created_fd\<lparr>NextStepAfter := 50\<rparr>)))) ! 0)
        = NextStepAfter (created_fd\<lparr>NextStepAfter := 50\<rparr>)"
    by presburger
  with s show ?thesis by (simp add: test_defs)
qed

text \<open>
  C7, as stated, fails: the does-not-exist error is not the only way the update fails, and
  an existing deployment does not make it succeed. For the stored deployment of the test,
  a statement for which the driver reports an error returns that error wrapped and leaves
  the row as it was; a result whose number of affected rows cannot be read returns that
  error wrapped after the new name has been stored. For a deployment that does not
  exist, a driver error is returned instead of the does-not-exist error.
\<close>

theorem update_fails_on_existing_deployment:
  "map c_id (fuota_deployment test_db) = [ID created_fd]
   \<and> snd (snd (UpdateFUOTADeployment handlePSQLError 200
                 (Some (other_error ''connection refused'')) None test_db
                 (created_fd\<lparr>Name := ''updated deployment''\<rparr>)))
       = Some (Wrap (other_error ''connection refused'') ''update error'')
   \<and> map c_name (fuota_deployment (fst (snd (UpdateFUOTADeployment handlePSQLError 200
                 (Some (other_error ''connection refused'')) None test_db
                 (created_fd\<lparr>Name := ''updated deployment''\<rparr>)))))
       = [''test deployment'']
   \<and> snd (snd (UpdateFUOTADeployment handlePSQLError 200 None
                 (Some ''no RowsAffected available'') test_db
                 (created_fd\<lparr>Name := ''updated deployment''\<rparr>)))
       = Some (Wrap (other_error ''no RowsAffected available'') ''get rows affected error'')
   \<and> map c_name (fuota_deployment (fst (snd (UpdateFUOTADeployment handlePSQLError 200 None
                 (Some ''no RowsAffected available'') test_db
                 (created_fd\<lparr>Name := ''updated deployment''\<rparr>)))))
       = [''updated deployment'']
   \<and> fuota_deployment empty_db = []
   \<and> snd (snd (UpdateFUOTADeployment handlePSQLError 200
                 (Some (other_error ''connection refused'')) None empty_db created_fd))
       = Some (Wrap (other_error ''connection refused'') ''update error'')"
  by (simp add: exec_defs test_defs)

text \<open>
  C7 (amended). When the database executes the statement and the number of affected rows
  can be read, \<^verbatim>\<open>UpdateFUOTADeployment\<close> returns \<^verbatim>\<open>ErrDoesNotExist\<close> if and only if no
  stored deployment has the identifier of the struct; when one has, the update returns no
  error, and every row with that identifier then holds the given values in the thirteen
  columns of the \<^verbatim>\<open>set\<close> clause. When the driver reports an error for the statement,
  the function returns what \<^verbatim>\<open>handlePSQLError\<close> makes of it and the store is as before.
  When the number of affected rows cannot be read, the function returns that error
  wrapped, and the store is as the executed statement left it.
\<close>

theorem update_not_found_iff:
  "((snd (snd (UpdateFUOTADeployment h now None None d fd)) = Some ErrDoesNotExist
      \<longleftrightarrow> \<not> (\<exists>r\<in>set (fuota_deployment d). c_id r = ID fd))
   \<and> ((\<exists>r\<in>set (fuota_deployment d). c_id r = ID fd) \<longrightarrow>
        snd (snd (UpdateFUOTADeployment h now None None d fd)) = None
        \<and> (\<exists>r\<in>set (fuota_deployment (fst (snd (UpdateFUOTADeployment h now None None d fd)))).
              c_id r = ID fd)
        \<and> (\<forall>r\<in>set (fuota_deployment (fst (snd (UpdateFUOTADeployment h now None None d fd)))).
              c_id r = ID fd \<longrightarrow>
                c_updated_at r = now
              \<and> c_name r = Name fd
              \<and> c_multicast_group_id r = MulticastGroupID fd
              \<and> c_fragmentation_matrix r = [FragmentationMatrix fd]
              \<and> c_descriptor r = slice4 (Descriptor fd)
              \<and> c_payload r = Payload fd
              \<and> c_state r = State fd
              \<and> c_next_step_after r = NextStepAfter fd
              \<and> c_unicast_timeout r = UnicastTimeout fd
              \<and> c_frag_size r = FragSize fd
              \<and> c_redundancy r = Redundancy fd
              \<and> c_block_ack_delay r = BlockAckDelay fd
              \<and> c_multicast_timeout r = MulticastTimeout fd)))
   \<and> UpdateFUOTADeployment h now (Some e) ra d fd
       = (fd\<lparr>UpdatedAt := now\<rparr>, d, Some (h Update e ''update error''))
   \<and> snd (snd (UpdateFUOTADeployment h now None (Some m) d fd))
       = Some (Wrap (other_error m) ''get rows affected error'')
   \<and> fuota_deployment (fst (snd (UpdateFUOTADeployment h now None (Some m) d fd)))
       = fuota_deployment (fst (snd (UpdateFUOTADeployment h now None None d fd)))"
proof -
  have a: "snd (snd (UpdateFUOTADeployment h now None None d fd)) = Some ErrDoesNotExist
      \<longleftrightarrow> \<not> (\<exists>r\<in>set (fuota_deployment d). c_id r = ID fd)"
    by (simp add: Update_err)
  have b: "snd (snd (UpdateFUOTADeployment h now None None d fd)) = None"
    if "\<exists>r\<in>set (fuota_deployment d). c_id r = ID fd"
    using that by (simp add: Update_err)
  have c: "\<exists>r\<in>set (fuota_deployment (fst (snd (UpdateFUOTADeployment h now None None d fd)))).
              c_id r = ID fd"
    if "\<exists>r\<in>set (fuota_deployment d). c_id r = ID fd"
  proof -
    from that have "ID fd \<in> c_id ` set (fuota_deployment d)" by force
    then have "ID fd \<in> set (map c_id (fuota_deployment d))" by simp
    then have "ID fd \<in> set (map c_id (fuota_deployment (fst (snd (UpdateFUOTADeployment h now None None d fd)))))"
      by (simp only: Update_ids)
    then show ?thesis by force
  qed
  have e: "\<forall>r\<in>set (fuota_deployment (fst (snd (UpdateFUOTADeployment h now None None d fd)))).
              c_id r = ID fd \<longrightarrow>
                c_updated_at r = now
              \<and> c_name r = Name fd
              \<and> c_multicast_group_id r = MulticastGroupID fd
              \<and> c_fragmentation_matrix r = [FragmentationMatrix fd]
              \<and> c_descriptor r = slice4 (Descriptor fd)
              \<and> c_payload r = Payload fd
              \<and> c_state r = State fd
              \<and> c_next_step_after r = NextStepAfter fd
              \<and> c_unicast_timeout r = UnicastTimeout fd
              \<and> c_frag_size r = FragSize fd
              \<and> c_redundancy r = Redundancy fd
              \<and> c_block_ack_delay r = BlockAckDelay fd
              \<and> c_multicast_timeout r = MulticastTimeout fd"
    by (auto simp: Update_rows)
  have f: "UpdateFUOTADeployment h now (Some e) ra d fd
       = (fd\<lparr>UpdatedAt := now\<rparr>, d, Some (h Update e ''update error''))"
    by (simp add: UpdateFUOTADeployment_def Exec_update_fuota_deployment_def Let_def)
  have g: "snd (snd (UpdateFUOTADeployment h now None (Some m) d fd))
       = Some (Wrap (other_error m) ''get rows affected error'')"
    by (simp add: UpdateFUOTADeployment_def Exec_update_fuota_deployment_def Let_def)
  have k: "fuota_deployment (fst (snd (UpdateFUOTADeployment h now None (Some m) d fd)))
       = fuota_deployment (fst (snd (UpdateFUOTADeployment h now None None d fd)))"
    by (simp only: Update_rows)
  from a b c e have "(snd (snd (UpdateFUOTADeployment h now None None d fd)) = Some ErrDoesNotExist
      \<longleftrightarrow> \<not> (\<exists>r\<in>set (fuota_deployment d). c_id r = ID fd))
   \<and> ((\<exists>r\<in>set (fuota_deployment d). c_id r = ID fd) \<longrightarrow>
        snd (snd (UpdateFUOTADeployment h now None None d fd)) = None
        \<and> (\<exists>r\<in>set (fuota_deployment (fst (snd (UpdateFUOTADeployment h now None None d fd)))).
              c_id r = ID fd)
        \<and> (\<forall>r\<in>set (fuota_deployment (fst (snd (UpdateFUOTADeployment h now None None d fd)))).
              c_id r = ID fd \<longrightarrow>
                c_updated_at r = now
              \<and> c_name r = Name fd
              \<and> c_multicast_group_id r = MulticastGroupID fd
              \<and> c_fragmentation_matrix r = [FragmentationMatrix fd]
              \<and> c_descriptor r = slice4 (Descriptor fd)
              \<and> c_payload r = Payload fd
              \<and> c_state r = State fd
              \<and> c_next_step_after r = NextStepAfter fd
              \<and> c_unicast_timeout r = UnicastTimeout fd
              \<and> c_frag_size r = FragSize fd
              \<and> c_redundancy r = Redundancy fd
              \<and> c_block_ack_delay r = BlockAckDelay fd
              \<and> c_multicast_timeout r = MulticastTimeout fd))"
    by blast
  with f g k show ?thesis by blast
qed

text \<open>
  The theorem at the store of the test, where the deployment exists, and at the empty
  store, where it does not; with the statement executed, and with a driver error.
\<close>

theorem update_not_found_iff_witness:
  "(\<exists>r\<in>set (fuota_deployment test_db). c_id r = ID created_fd)
   \<and> snd (snd (UpdateFUOTADeployment handlePSQLError 200 None None test_db created_fd)) = None
   \<and> \<not> (\<exists>r\<in>set (fuota_deployment empty_db). c_id r = ID created_fd)
   \<and> snd (snd (UpdateFUOTADeployment handlePSQLError 200 None None empty_db created_fd))
       = Some ErrDoesNotExist
   \<and> UpdateFUOTADeployment handlePSQLError 200 (Some (other_error ''connection refused'')) None
         test_db created_fd
       = (created_fd\<lparr>UpdatedAt := 200\<rparr>, test_db,
          Some (Wrap (other_error ''connection refused'') ''update error''))"
proof -
  have a: "\<exists>r\<in>set (fuota_deployment test_db). c_id r = ID created_fd"
    by (simp add: test_defs)
  have b: "\<not> (\<exists>r\<in>set (fuota_deployment empty_db). c_id r = ID created_fd)"
    by (simp add: test_defs)
  note t1 = update_not_found_iff [of handlePSQLError 200 test_db created_fd
      "other_error ''connection refused''" None]
  note t2 = update_not_found_iff [of handlePSQLError 200 empty_db created_fd]
  from t1 a have "snd (snd (UpdateFUOTADeployment handlePSQLError 200 None None test_db created_fd))
      = None" by blast
  moreover from t2 b
  have "snd (snd (UpdateFUOTADeployment handlePSQLError 200 None None empty_db created_fd))
       = Some ErrDoesNotExist" by blast
  moreover from t1
  have "UpdateFUOTADeployment handlePSQLError 200 (Some (other_error ''connection refused'')) None
         test_db created_fd
       = (created_fd\<lparr>UpdatedAt := 200\<rparr>, test_db,
          Some (handlePSQLError Update (other_error ''connection refused'') ''update error''))"
    by blast
  ultimately show ?thesis using a b by (simp add: handlePSQLError_def)
qed

text \<open>
  C9. Whatever the outcome, \<^verbatim>\<open>UpdateFUOTADeployment\<close> leaves the \<^verbatim>\<open>id\<close> and the
  \<^verbatim>\<open>created_at\<close> of every stored deployment as they were.
\<close>

theorem update_keeps_id_and_created_at:
  "map c_id (fuota_deployment (fst (snd (UpdateFUOTADeployment h now drv ra d fd))))
     = map c_id (fuota_deployment d)
   \<and> map c_created_at (fuota_deployment (fst (snd (UpdateFUOTADeployment h now drv ra d fd))))
     = map c_created_at (fuota_deployment d)"
proof (cases drv)
  case None
  then show ?thesis
    by (simp add: Update_rows o_def if_distrib cong: if_cong)
next
  case (Some e)
  then show ?thesis by (simp add: Update_rows_fault)
qed

text \<open>
  The theorem at an update whose struct carries another \<^verbatim>\<open>CreatedAt\<close> than the
  stored row.
\<close>

theorem update_keeps_id_and_created_at_witness:
  "map c_id (fuota_deployment (fst (snd (UpdateFUOTADeployment handlePSQLError 200 None None
       test_db (created_fd\<lparr>CreatedAt := 7\<rparr>))))) = [1]
   \<and> map c_created_at (fuota_deployment (fst (snd (UpdateFUOTADeployment handlePSQLError 200
       None None test_db (created_fd\<lparr>CreatedAt := 7\<rparr>))))) = [100]"
  using update_keeps_id_and_created_at [of handlePSQLError 200 None None test_db
      "created_fd\<lparr>CreatedAt := 7\<rparr>"]
  by (simp add: test_defs)

text \<open>
  C10. \<^verbatim>\<open>UpdateFUOTADeployment\<close> sets the \<^verbatim>\<open>UpdatedAt\<close> of the struct behind its
  pointer to the current time before it executes the statement, whatever the outcome.
  When no stored deployment has the struct's identifier it returns
  \<^verbatim>\<open>ErrDoesNotExist\<close> with the store unchanged and the struct changed in that field.
\<close>

theorem update_not_found_mutates_argument:
  "fst (UpdateFUOTADeployment h now drv ra d fd) = fd\<lparr>UpdatedAt := now\<rparr>
   \<and> ((\<forall>r\<in>set (fuota_deployment d). c_id r \<noteq> ID fd) \<longrightarrow>
        UpdateFUOTADeployment h now None None d fd = (fd\<lparr>UpdatedAt := now\<rparr>, d, Some ErrDoesNotExist))"
proof -
  have "UpdateFUOTADeployment h now None None d fd = (fd\<lparr>UpdatedAt := now\<rparr>, d, Some ErrDoesNotExist)"
    if nf: "\<forall>r\<in>set (fuota_deployment d). c_id r \<noteq> ID fd"
  proof -
    have "fst (snd (UpdateFUOTADeployment h now None None d fd)) = d"
      using nf
      by (simp add: UpdateFUOTADeployment_def Exec_update_fuota_deployment_def Let_def
          map_if_id filter_none)
    moreover have "snd (snd (UpdateFUOTADeployment h now None None d fd)) = Some ErrDoesNotExist"
      using nf by (simp add: Update_err)
    ultimately show ?thesis
      using Update_fst [of h now None None d fd]
      by (metis prod.collapse)
  qed
  then show ?thesis by (simp add: Update_fst)
qed

text \<open>
  The theorem at an update for an identifier that the store of the test does not hold:
  the struct came with \<^verbatim>\<open>UpdatedAt\<close> \<open>100\<close> and is left with \<open>200\<close>.
\<close>

theorem update_not_found_mutates_argument_witness:
  "map c_id (fuota_deployment test_db) = [1] \<and> ID (created_fd\<lparr>ID := 5\<rparr>) = 5
   \<and> UpdateFUOTADeployment handlePSQLError 200 None None test_db (created_fd\<lparr>ID := 5\<rparr>)
       = (created_fd\<lparr>ID := 5, UpdatedAt := 200\<rparr>, test_db, Some ErrDoesNotExist)
   \<and> UpdatedAt (created_fd\<lparr>ID := 5\<rparr>) = 100"
proof -
  have a: "\<forall>r\<in>set (fuota_deployment test_db). c_id r \<noteq> ID (created_fd\<lparr>ID := 5\<rparr>)"
    by (simp add: test_defs)
  from update_not_found_mutates_argument [of handlePSQLError 200 None None test_db
      "created_fd\<lparr>ID := 5\<rparr>"] a
  have "UpdateFUOTADeployment handlePSQLError 200 None None test_db (created_fd\<lparr>ID := 5\<rparr>)
       = (created_fd\<lparr>ID := 5, UpdatedAt := 200\<rparr>, test_db, Some ErrDoesNotExist)"
    by simp
  moreover have "map c_id (fuota_deployment test_db) = [1]" "ID (created_fd\<lparr>ID := 5\<rparr>) = 5"
    "UpdatedAt (created_fd\<lparr>ID := 5\<rparr>) = 100"
    by (simp_all add: test_defs)
  ultimately show ?thesis by simp
qed

end
